theory Spec2Isabelle
  imports Complex_Main "HOL-Library.Sublist"
begin

section \<open>Voice assistant plugin: session engine of \<^verbatim>\<open>src/main.ts\<close>\<close>

text \<open>
  The development embeds the parts of the plugin class \<^verbatim>\<open>VoiceAssistantPlugin\<close> that decide
  when audio counts as speech, how the rolling pre-recording buffer is filled, how custom
  prompts are applied and how dialog turns, dictation flushes, timers and playback are
  handled. JavaScript numbers are modelled as reals, strings as byte lists (UTF-8), promises
  that may reject as sums with the error on the left, and the mutable plugin fields as
  records that are passed through each handler.
\<close>

subsection \<open>Pre-recording buffer\<close>

text \<open>Field \<^verbatim>\<open>preRecordingBufferSize = 10\<close>.\<close>

definition preRecordingBufferSize :: nat where
  "preRecordingBufferSize = 10"

text \<open>
  \<^verbatim>\<open>addToPreRecordingBuffer\<close>: push the new segment, then drop the head with
  \<^verbatim>\<open>shift()\<close> when the length exceeds the limit. The list after \<^verbatim>\<open>push\<close> is never
  empty, so \<^verbatim>\<open>shift()\<close> is \<open>tl\<close>.
\<close>

definition addToPreRecordingBuffer :: "'blob list \<Rightarrow> 'blob \<Rightarrow> 'blob list" where
  "addToPreRecordingBuffer preRecordingBuffer audioBlob =
     (let pushed = preRecordingBuffer @ [audioBlob]
      in if length pushed > preRecordingBufferSize then tl pushed else pushed)"

text \<open>
  \<^verbatim>\<open>startPreRecordingBuffer\<close> resets the buffer to \<open>[]\<close>; every later change is one call of
  \<^verbatim>\<open>addToPreRecordingBuffer\<close> from the recorder's \<^verbatim>\<open>onstop\<close> handler.
\<close>

definition preRecordingRun :: "'blob list \<Rightarrow> 'blob list" where
  "preRecordingRun segments = foldl addToPreRecordingBuffer [] segments"

subsection \<open>Voice activity detection\<close>
















subsection \<open>Custom prompts\<close>

record CustomPrompt =
  name :: string
  trigger :: string
  prompt :: string
  enabled :: bool

text \<open>
  \<^verbatim>\<open>String.prototype.toLowerCase\<close>, on the ASCII letters; every other byte is kept.
\<close>

definition toLowerChar :: "char \<Rightarrow> char" where
  "toLowerChar c =
     (let n = (of_char c :: nat)
      in if 65 \<le> n \<and> n \<le> 90 then char_of (n + 32) else c)"

definition toLowerCase :: "string \<Rightarrow> string" where
  "toLowerCase s = map toLowerChar s"

text \<open>\<^verbatim>\<open>text.includes(search)\<close>: \<open>search\<close> occurs in \<open>text\<close> as a contiguous run.\<close>

definition includes_str :: "string \<Rightarrow> string \<Rightarrow> bool" where
  "includes_str text search = sublist search text"

text \<open>The literal between \<^verbatim>\<open>${prompt.prompt}\<close> and \<^verbatim>\<open>${text}\<close> in the template string: two line feeds
  and the five Chinese characters of the label "user input:", as UTF-8 bytes.\<close>

definition userInputLabel :: string where
  "userInputLabel =
     [CHR 0x0A, CHR 0x0A, CHR 0xE7, CHR 0x94, CHR 0xA8, CHR 0xE6, CHR 0x88, CHR 0xB7,
      CHR 0xE8, CHR 0xBE, CHR 0x93, CHR 0xE5, CHR 0x85, CHR 0xA5, CHR 0xEF, CHR 0xBC, CHR 0x9A]"

text \<open>The \<^verbatim>\<open>for (const prompt of customPrompts)\<close> loop with its \<^verbatim>\<open>continue\<close> and \<^verbatim>\<open>return\<close>.\<close>

fun customPromptLoop :: "CustomPrompt list \<Rightarrow> string \<Rightarrow> string" where
  "customPromptLoop [] text = text"
| "customPromptLoop (p # ps) text =
     (if \<not> enabled p then customPromptLoop ps text
      else if includes_str (toLowerCase text) (toLowerCase (trigger p))
        then prompt p @ userInputLabel @ text
      else customPromptLoop ps text)"

text \<open>
  \<^verbatim>\<open>processCustomPrompts\<close>; \<open>None\<close> is a \<^verbatim>\<open>customPrompts\<close> setting that is undefined.
\<close>

definition processCustomPrompts :: "CustomPrompt list option \<Rightarrow> string \<Rightarrow> string" where
  "processCustomPrompts customPrompts text =
     (case customPrompts of
        None \<Rightarrow> text
      | Some ps \<Rightarrow> if length ps = 0 then text else customPromptLoop ps text)"


subsection \<open>Plugin state\<close>

text \<open>
  A promise that rejects, or a call that throws, is an \<open>Inl\<close> of the kind of failure.
\<close>

datatype error = CaptureError | RecognitionError | ResponseError | SynthesisError | PersistenceError

datatype TtsMode = TtsDisabled | TtsOnline

record Settings =
  customPrompts :: "CustomPrompt list option"
  ttsMode :: TtsMode
  saveAudioToVault :: bool
  autoEnterDialogAfterWake :: bool
  enableVoiceInterruption :: bool
  voiceDetectionThreshold :: real

text \<open>An entry of \<^verbatim>\<open>conversationHistory\<close>; the \<^verbatim>\<open>Date\<close> is a clock reading.\<close>

record Turn =
  user :: string
  assistant :: string
  timestamp :: nat

text \<open>A \<^verbatim>\<open>Blob\<close> is its content; \<^verbatim>\<open>new Blob([a, b])\<close> is \<open>a @ b\<close>.\<close>

type_synonym Blob = "nat list"

text \<open>
  An \<^verbatim>\<open>HTMLAudioElement\<close> created by the plugin is playing, paused by the plugin, or has
  reached its end (its \<^verbatim>\<open>paused\<close> attribute is true in the last two).
\<close>

datatype AudioStatus = Playing | Paused | Ended

text \<open>The two callbacks the session passes to \<^verbatim>\<open>setTimeout\<close>.\<close>

datatype TimerCallback = SilenceTimeout | CheckVolume

text \<open>
  What is sent to the language model and what is written to the vault are template
  strings; they are kept as the data the templates are filled with.
\<close>

datatype LlmInput = UserPrompt string | SummaryRequest "Turn list"

datatype SessionNote = SummaryNote string "Turn list" | RawNote "Turn list"

text \<open>
  The fields of \<^verbatim>\<open>VoiceAssistantPlugin\<close> that the session engine reads and writes,
  followed by the part of the host it acts on: the timer table of the event loop, the audio
  elements created so far (an element is its index), the closure variable
  \<^verbatim>\<open>consecutiveDetections\<close> of the running monitor, and what was handed to the vault and
  to the editor. Notices, status texts and debug logs are left out.
\<close>

record Plugin =
  settings :: Settings
  currentAudio :: "nat option"
  isPlaying :: bool
  isInContinuousDialog :: bool
  conversationHistory :: "Turn list"
  silenceTimer :: "nat option"
  backgroundVoiceDetection :: bool
  voiceDetectionTimer :: "nat option"
  preRecordingBuffer :: "Blob list"
  isPreRecording :: bool
  isWakeConversation :: bool
  wakeSessionId :: "nat option"
  wakeSessionFileName :: "string option"
  wakeSessionAudioSaved :: bool
  pendingTimers :: "(nat \<times> TimerCallback) list"
  nextTimerId :: nat
  audioElements :: "AudioStatus list"
  consecutiveDetections :: nat
  vaultAudio :: "Blob list"
  vaultNotes :: "(string \<times> SessionNote) list"
  editorInserts :: "(string \<times> string) list"
  activeView :: bool

subsection \<open>Timers\<close>

text \<open>
  \<^verbatim>\<open>setTimeout\<close> returns a fresh handle and adds the callback to the timer table;
  \<^verbatim>\<open>clearTimeout\<close> removes the entry of a handle. A callback runs only from the table.
\<close>

definition setTimeout :: "TimerCallback \<Rightarrow> Plugin \<Rightarrow> nat \<times> Plugin" where
  "setTimeout callback s =
     (nextTimerId s,
      s\<lparr>pendingTimers := pendingTimers s @ [(nextTimerId s, callback)],
        nextTimerId := nextTimerId s + 1\<rparr>)"

definition clearTimeout :: "nat \<Rightarrow> Plugin \<Rightarrow> Plugin" where
  "clearTimeout handle s =
     s\<lparr>pendingTimers := filter (\<lambda>entry. fst entry \<noteq> handle) (pendingTimers s)\<rparr>"

definition clearSilenceTimer :: "Plugin \<Rightarrow> Plugin" where
  "clearSilenceTimer s =
     (case silenceTimer s of
        None \<Rightarrow> s
      | Some handle \<Rightarrow> (clearTimeout handle s)\<lparr>silenceTimer := None\<rparr>)"

definition startSilenceDetection :: "Plugin \<Rightarrow> Plugin" where
  "startSilenceDetection s =
     (let s1 = clearSilenceTimer s;
          (handle, s2) = setTimeout SilenceTimeout s1
      in s2\<lparr>silenceTimer := Some handle\<rparr>)"

subsection \<open>Playback\<close>

definition audioStatus :: "Plugin \<Rightarrow> nat \<Rightarrow> AudioStatus" where
  "audioStatus s audio =
     (if audio < length (audioElements s) then audioElements s ! audio else Ended)"

text \<open>\<^verbatim>\<open>audio.paused\<close>.\<close>

definition audioPaused :: "Plugin \<Rightarrow> nat \<Rightarrow> bool" where
  "audioPaused s audio = (audioStatus s audio \<noteq> Playing)"

text \<open>
  \<^verbatim>\<open>audio.pause()\<close>: a playing element becomes paused and its \<^verbatim>\<open>onpause\<close> handler
  clears \<^verbatim>\<open>isPlaying\<close>.
\<close>

definition pauseAudio :: "nat \<Rightarrow> Plugin \<Rightarrow> Plugin" where
  "pauseAudio audio s =
     (if audioStatus s audio = Playing
      then s\<lparr>audioElements := (audioElements s)[audio := Paused], isPlaying := False\<rparr>
      else s)"

text \<open>
  \<^verbatim>\<open>playAudioFromBase64\<close> up to the point where the element plays: a new element is
  created and started, it becomes \<^verbatim>\<open>currentAudio\<close>, and the audio is handed to the vault
  when \<^verbatim>\<open>saveAudioToVault\<close> is set (only once in a wake session).
\<close>

definition playAudioFromBase64 :: "Blob \<Rightarrow> Plugin \<Rightarrow> nat \<times> Plugin" where
  "playAudioFromBase64 base64Audio s =
     (let audio = length (audioElements s);
          s1 = s\<lparr>audioElements := audioElements s @ [Playing],
                 currentAudio := Some audio, isPlaying := True\<rparr>;
          s2 =
            (if saveAudioToVault (settings s1) then
               if isWakeConversation s1 \<and> wakeSessionAudioSaved s1 then s1
               else
                 let s' = s1\<lparr>vaultAudio := vaultAudio s1 @ [base64Audio]\<rparr>
                 in if isWakeConversation s' then s'\<lparr>wakeSessionAudioSaved := True\<rparr> else s'
             else s1)
      in (audio, s2))"

text \<open>The handlers \<^verbatim>\<open>audio.onended\<close> and \<^verbatim>\<open>audio.onerror\<close> of that element.\<close>

definition audioOnEnded :: "nat \<Rightarrow> Plugin \<Rightarrow> Plugin" where
  "audioOnEnded audio s =
     s\<lparr>audioElements := (audioElements s)[audio := Ended],
       currentAudio := None, isPlaying := False\<rparr>"

definition audioOnError :: "nat \<Rightarrow> Plugin \<Rightarrow> Plugin" where
  "audioOnError audio s =
     s\<lparr>audioElements := (audioElements s)[audio := Ended],
       currentAudio := None, isPlaying := False\<rparr>"

text \<open>
  How a synthesis request ends: the service or the socket fails, the service completes
  without audio data, the audio is played to its end, or the element reports an error
  after it was started.
\<close>

datatype TtsOutcome = SynthesisFails | NoAudioData | AudioPlayed Blob | PlaybackFails Blob

definition xunfeiOnlineTTS :: "TtsOutcome \<Rightarrow> Plugin \<Rightarrow> (error + unit) \<times> Plugin" where
  "xunfeiOnlineTTS outcome s =
     (case outcome of
        SynthesisFails \<Rightarrow> (Inl SynthesisError, s)
      | NoAudioData \<Rightarrow> (Inr (), s)
      | AudioPlayed base64Audio \<Rightarrow>
          (let (audio, s1) = playAudioFromBase64 base64Audio s
           in (Inr (), audioOnEnded audio s1))
      | PlaybackFails base64Audio \<Rightarrow>
          (let (audio, s1) = playAudioFromBase64 base64Audio s
           in (Inl SynthesisError, audioOnError audio s1)))"

definition textToSpeech :: "TtsOutcome \<Rightarrow> Plugin \<Rightarrow> (error + unit) \<times> Plugin" where
  "textToSpeech outcome s =
     (if ttsMode (settings s) = TtsOnline then xunfeiOnlineTTS outcome s else (Inr (), s))"



subsection \<open>Wake word\<close>

text \<open>
  \<^verbatim>\<open>startNewWakeSession\<close>; the session id and file name come from the clock.
\<close>

definition startNewWakeSession :: "nat \<Rightarrow> string \<Rightarrow> Plugin \<Rightarrow> Plugin" where
  "startNewWakeSession sessionId fileName s =
     s\<lparr>wakeSessionId := Some sessionId, wakeSessionFileName := Some fileName,
       isWakeConversation := True, wakeSessionAudioSaved := False,
       conversationHistory := []\<rparr>"

definition endWakeSession :: "Plugin \<Rightarrow> Plugin" where
  "endWakeSession s =
     s\<lparr>isWakeConversation := False, wakeSessionId := None, wakeSessionFileName := None,
       conversationHistory := []\<rparr>"

text \<open>
  \<^verbatim>\<open>onWakeWordDetected\<close> up to the call of \<^verbatim>\<open>startVoiceConversation\<close>, which is not
  awaited; the result says whether that call is made. In the \<^verbatim>\<open>catch\<close> branch the
  constant \<^verbatim>\<open>originalSaveAudio\<close> of the \<^verbatim>\<open>try\<close> block is out of scope and the
  statement there assigns the setting to itself.
\<close>

definition onWakeWordDetected :: "TtsOutcome \<Rightarrow> nat \<Rightarrow> string \<Rightarrow> Plugin \<Rightarrow> bool \<times> Plugin" where
  "onWakeWordDetected outcome sessionId fileName s =
     (let s1 =
            (if ttsMode (settings s) \<noteq> TtsDisabled then
               let originalSaveAudio = saveAudioToVault (settings s);
                   s' = s\<lparr>settings := (settings s)\<lparr>saveAudioToVault := False\<rparr>\<rparr>
               in case textToSpeech outcome s' of
                    (Inr _, s'') \<Rightarrow>
                      s''\<lparr>settings := (settings s'')\<lparr>saveAudioToVault := originalSaveAudio\<rparr>\<rparr>
                  | (Inl _, s'') \<Rightarrow>
                      s''\<lparr>settings :=
                            (settings s'')\<lparr>saveAudioToVault := saveAudioToVault (settings s'')\<rparr>\<rparr>
             else s)
      in if autoEnterDialogAfterWake (settings s1)
         then (True, startNewWakeSession sessionId fileName s1)
         else (False, s1))"

subsection \<open>Interruption monitor and pre-recording\<close>

text \<open>
  \<^verbatim>\<open>stopBackgroundVoiceDetection\<close>: nothing when the monitor is off, else the flag is
  cleared and the poll timer cancelled.
\<close>

definition stopBackgroundVoiceDetection :: "Plugin \<Rightarrow> Plugin" where
  "stopBackgroundVoiceDetection s =
     (if \<not> backgroundVoiceDetection s then s
      else
        let s1 = s\<lparr>backgroundVoiceDetection := False\<rparr>
        in case voiceDetectionTimer s1 of
             None \<Rightarrow> s1
           | Some handle \<Rightarrow> (clearTimeout handle s1)\<lparr>voiceDetectionTimer := None\<rparr>)"

text \<open>
  \<^verbatim>\<open>startPreRecordingBuffer\<close> and \<^verbatim>\<open>stopPreRecordingBuffer\<close>, with the microphone
  granted; \<^verbatim>\<open>getPreRecordingBufferAudio\<close> joins the buffered segments.
\<close>

definition startPreRecordingBuffer :: "Plugin \<Rightarrow> Plugin" where
  "startPreRecordingBuffer s =
     (if isPreRecording s then s else s\<lparr>isPreRecording := True, preRecordingBuffer := []\<rparr>)"

definition stopPreRecordingBuffer :: "Plugin \<Rightarrow> Plugin" where
  "stopPreRecordingBuffer s =
     (if \<not> isPreRecording s then s else s\<lparr>isPreRecording := False\<rparr>)"

definition getPreRecordingBufferAudio :: "Plugin \<Rightarrow> Blob option" where
  "getPreRecordingBufferAudio s =
     (if length (preRecordingBuffer s) = 0 then None else Some (concat (preRecordingBuffer s)))"

text \<open>
  The synchronous part of \<^verbatim>\<open>handleVoiceInterruption\<close>: the current element, when it is
  playing, is paused, rewound and dropped; the monitor is stopped and the silence timer
  cleared. What follows in the source is the call of
  \<^verbatim>\<open>processSingleConversationWithBuffer\<close> when the dialog is active, which starts from
  the state returned here.
\<close>

definition handleVoiceInterruption :: "Plugin \<Rightarrow> Plugin" where
  "handleVoiceInterruption s =
     (let s1 =
            (case currentAudio s of
               None \<Rightarrow> s
             | Some audio \<Rightarrow>
                 if \<not> audioPaused s audio
                 then (pauseAudio audio s)\<lparr>currentAudio := None, isPlaying := False\<rparr>
                 else s);
          s2 = stopBackgroundVoiceDetection s1;
          s3 = clearSilenceTimer s2
      in s3)"

text \<open>
  One run of the closure \<^verbatim>\<open>checkVolume\<close> on the level read from the analyser: three
  consecutive polls above the threshold call \<^verbatim>\<open>handleVoiceInterruption\<close> and end the
  loop; any other poll schedules the next one.
\<close>

definition scheduleCheckVolume :: "Plugin \<Rightarrow> Plugin" where
  "scheduleCheckVolume s =
     (let (handle, s1) = setTimeout CheckVolume s in s1\<lparr>voiceDetectionTimer := Some handle\<rparr>)"

definition checkVolume :: "real \<Rightarrow> Plugin \<Rightarrow> Plugin" where
  "checkVolume average s =
     (if \<not> backgroundVoiceDetection s then s
      else if average > voiceDetectionThreshold (settings s) then
        let s1 = s\<lparr>consecutiveDetections := consecutiveDetections s + 1\<rparr>
        in if consecutiveDetections s1 \<ge> 3 then handleVoiceInterruption s1
           else scheduleCheckVolume s1
      else scheduleCheckVolume (s\<lparr>consecutiveDetections := 0\<rparr>))"

text \<open>
  \<^verbatim>\<open>startBackgroundVoiceDetection\<close>, with the microphone granted at once: the flag is
  set, the counter of the new closure is 0 and \<^verbatim>\<open>checkVolume\<close> runs for the first time.
\<close>

definition startBackgroundVoiceDetection :: "real \<Rightarrow> Plugin \<Rightarrow> Plugin" where
  "startBackgroundVoiceDetection average s =
     (if backgroundVoiceDetection s \<or> \<not> enableVoiceInterruption (settings s) then s
      else checkVolume average (s\<lparr>backgroundVoiceDetection := True, consecutiveDetections := 0\<rparr>))"

subsection \<open>Dialog turns\<close>

text \<open>The text that \<^verbatim>\<open>xunfeiOnlineASR\<close> resolves to when nothing was recognised.\<close>

definition noSpeechText :: string where
  "noSpeechText =
     [CHR 0xE6, CHR 0x9C, CHR 0xAA, CHR 0xE8, CHR 0xAF, CHR 0x86, CHR 0xE5, CHR 0x88,
      CHR 0xAB, CHR 0xE5, CHR 0x88, CHR 0xB0, CHR 0xE8, CHR 0xAF, CHR 0xAD, CHR 0xE9,
      CHR 0x9F, CHR 0xB3, CHR 0xE5, CHR 0x86, CHR 0x85, CHR 0xE5, CHR 0xAE, CHR 0xB9]"

text \<open>\<^verbatim>\<open>String.prototype.trim\<close>, on the ASCII white space.\<close>

definition isWhiteSpace :: "char \<Rightarrow> bool" where
  "isWhiteSpace c = (let n = (of_char c :: nat) in (9 \<le> n \<and> n \<le> 13) \<or> n = 32)"

definition trim :: "string \<Rightarrow> string" where
  "trim s = rev (dropWhile isWhiteSpace (rev (dropWhile isWhiteSpace s)))"

definition startContinuousDialog :: "Plugin \<Rightarrow> Plugin" where
  "startContinuousDialog s =
     startPreRecordingBuffer (s\<lparr>isInContinuousDialog := True, conversationHistory := []\<rparr>)"

text \<open>
  \<^verbatim>\<open>startRecording\<close>: in a dialog a playing current element is paused first; then the
  microphone either delivers the recorded blob or the promise rejects.
\<close>

definition startRecording :: "(error + Blob) \<Rightarrow> Plugin \<Rightarrow> (error + Blob) \<times> Plugin" where
  "startRecording captured s =
     (let s1 =
            (case currentAudio s of
               None \<Rightarrow> s
             | Some audio \<Rightarrow>
                 if isInContinuousDialog s \<and> \<not> audioPaused s audio
                 then (pauseAudio audio s)\<lparr>isPlaying := False\<rparr>
                 else s)
      in (captured, s1))"

definition insertToNote :: "string \<Rightarrow> string \<Rightarrow> Plugin \<Rightarrow> Plugin" where
  "insertToNote userText aiResponse s =
     (if isWakeConversation s then s
      else if activeView s then s\<lparr>editorInserts := editorInserts s @ [(userText, aiResponse)]\<rparr>
      else s)"

text \<open>
  \<^verbatim>\<open>processSingleConversation\<close>, run from its first statement to its return with the
  outcomes of the awaited calls given: the recording, \<^verbatim>\<open>speechToText\<close>, \<^verbatim>\<open>callLLM\<close> and
  the synthesis; \<open>now\<close> is \<^verbatim>\<open>new Date()\<close> and \<open>level\<close> the first reading of the monitor.
  \<open>Inl\<close> is an exception that leaves the function (the caller reports it).
\<close>

definition processSingleConversation ::
    "(error + Blob) \<Rightarrow> (Blob \<Rightarrow> error + string) \<Rightarrow> (LlmInput \<Rightarrow> error + string) \<Rightarrow>
     TtsOutcome \<Rightarrow> nat \<Rightarrow> real \<Rightarrow> Plugin \<Rightarrow> (error + unit) \<times> Plugin" where
  "processSingleConversation captured speechToText callLLM outcome now level s0 =
     (let s = clearSilenceTimer s0 in
      case startRecording captured s of
        (Inl e, s) \<Rightarrow> (Inl e, s)
      | (Inr audioBlob, s) \<Rightarrow>
      (case speechToText audioBlob of
        Inl e \<Rightarrow> (Inl e, s)
      | Inr text \<Rightarrow>
          if text = [] \<or> text = noSpeechText
          then (Inr (), if isInContinuousDialog s then startSilenceDetection s else s)
          else
            let enhancedText = processCustomPrompts (customPrompts (settings s)) text in
            (case callLLM (UserPrompt enhancedText) of
              Inl e \<Rightarrow> (Inl e, s)
            | Inr response \<Rightarrow>
                if response = []
                then (Inr (), if isInContinuousDialog s then startSilenceDetection s else s)
                else
                  let s =
                        (if isInContinuousDialog s
                         then s\<lparr>conversationHistory := conversationHistory s @
                                  [\<lparr>user = text, assistant = response, timestamp = now\<rparr>]\<rparr>
                         else insertToNote text response s)
                  in
                    if ttsMode (settings s) \<noteq> TtsDisabled then
                      let s = (if isInContinuousDialog s
                               then startPreRecordingBuffer (startBackgroundVoiceDetection level s)
                               else s)
                      in case textToSpeech outcome s of
                           (Inl e, s) \<Rightarrow> (Inl e, s)
                         | (Inr _, s) \<Rightarrow>
                             let s = (if isInContinuousDialog s
                                      then stopBackgroundVoiceDetection s else s)
                             in (Inr (), if isInContinuousDialog s
                                         then startSilenceDetection s else s)
                    else (Inr (), if isInContinuousDialog s then startSilenceDetection s else s))))"

text \<open>
  \<^verbatim>\<open>startVoiceConversation\<close>: the dialog is started when it is not active, the turn is
  processed, and an exception is caught and reported.
\<close>

definition startVoiceConversation ::
    "(error + Blob) \<Rightarrow> (Blob \<Rightarrow> error + string) \<Rightarrow> (LlmInput \<Rightarrow> error + string) \<Rightarrow>
     TtsOutcome \<Rightarrow> nat \<Rightarrow> real \<Rightarrow> Plugin \<Rightarrow> Plugin" where
  "startVoiceConversation captured speechToText callLLM outcome now level s =
     (let s1 = (if \<not> isInContinuousDialog s then startContinuousDialog s else s)
      in snd (processSingleConversation captured speechToText callLLM outcome now level s1))"

text \<open>
  \<^verbatim>\<open>processSingleConversationWithBuffer\<close>, the turn started by an interruption, run in
  the same way. Every exception is caught inside; \<open>afterError\<close> is its \<^verbatim>\<open>catch\<close> block.
\<close>

definition afterError :: "Plugin \<Rightarrow> Plugin" where
  "afterError s = (if isInContinuousDialog s then startSilenceDetection s else s)"

definition processSingleConversationWithBuffer ::
    "(error + Blob) \<Rightarrow> (Blob \<Rightarrow> error + string) \<Rightarrow> (LlmInput \<Rightarrow> error + string) \<Rightarrow>
     TtsOutcome \<Rightarrow> nat \<Rightarrow> real \<Rightarrow> Plugin \<Rightarrow> Plugin" where
  "processSingleConversationWithBuffer captured speechToText callLLM outcome now level s0 =
     (let bufferedAudio = getPreRecordingBufferAudio s0 in
      case startRecording captured s0 of
        (Inl e, s) \<Rightarrow> afterError s
      | (Inr newAudioBlob, s) \<Rightarrow>
          let finalAudioBlob =
                (case bufferedAudio of
                   None \<Rightarrow> newAudioBlob
                 | Some buffered \<Rightarrow>
                     if length buffered > 0 then buffered @ newAudioBlob else newAudioBlob)
          in
          (case speechToText finalAudioBlob of
            Inl e \<Rightarrow> afterError s
          | Inr userText \<Rightarrow>
              if userText = [] \<or> trim userText = [] \<or> userText = noSpeechText
              then startSilenceDetection s
              else
                let processedText = processCustomPrompts (customPrompts (settings s)) userText in
                (case callLLM (UserPrompt processedText) of
                  Inl e \<Rightarrow> afterError s
                | Inr aiResponse \<Rightarrow>
                    let s = s\<lparr>conversationHistory := conversationHistory s @
                                [\<lparr>user = userText, assistant = aiResponse, timestamp = now\<rparr>]\<rparr>;
                        s = insertToNote userText aiResponse s
                    in
                      if ttsMode (settings s) \<noteq> TtsDisabled then
                        (case textToSpeech outcome s of
                           (Inl e, s) \<Rightarrow> afterError s
                         | (Inr _, s) \<Rightarrow>
                             if isInContinuousDialog s
                             then startBackgroundVoiceDetection level (startPreRecordingBuffer s)
                             else s)
                      else if isInContinuousDialog s then startSilenceDetection s else s)))"

subsection \<open>End of a dialog\<close>

text \<open>
  \<^verbatim>\<open>saveConversationToFile\<close>: the vault creates the file or throws (the error is thrown
  again). The suffix that makes the path unique is not modelled.
\<close>

definition saveConversationToFile ::
    "bool \<Rightarrow> string \<Rightarrow> SessionNote \<Rightarrow> Plugin \<Rightarrow> (error + unit) \<times> Plugin" where
  "saveConversationToFile vaultAccepts fileName content s =
     (if vaultAccepts
      then (Inr (), s\<lparr>vaultNotes := vaultNotes s @ [(fileName, content)]\<rparr>)
      else (Inl PersistenceError, s))"

text \<open>
  The \<^verbatim>\<open>try\<close> block shared by the two summary functions, from the call of \<^verbatim>\<open>callLLM\<close>
  on: a non-empty summary is saved with the transcript, an empty one makes the raw
  transcript be saved, and any exception (of \<^verbatim>\<open>callLLM\<close> or of the vault) is caught and
  only reported. \<open>request\<close> is the text built from the history before the call, \<open>turns\<close> the
  history read after it.
\<close>

definition summarizeAndSave ::
    "(LlmInput \<Rightarrow> error + string) \<Rightarrow> bool \<Rightarrow> LlmInput \<Rightarrow> string \<Rightarrow> Turn list \<Rightarrow>
     Plugin \<Rightarrow> Plugin" where
  "summarizeAndSave callLLM vaultAccepts request fileName turns s =
     (case callLLM request of
        Inl e \<Rightarrow> s
      | Inr summary \<Rightarrow>
          if summary \<noteq> []
          then snd (saveConversationToFile vaultAccepts fileName (SummaryNote summary turns) s)
          else snd (saveConversationToFile vaultAccepts fileName (RawNote turns) s))"

definition generateConversationSummary ::
    "(LlmInput \<Rightarrow> error + string) \<Rightarrow> bool \<Rightarrow> string \<Rightarrow> Plugin \<Rightarrow> Plugin" where
  "generateConversationSummary callLLM vaultAccepts fileName s =
     (if length (conversationHistory s) = 0 then s
      else summarizeAndSave callLLM vaultAccepts (SummaryRequest (conversationHistory s))
             fileName (conversationHistory s) s)"

text \<open>A file name that is set: not \<^verbatim>\<open>null\<close> and not the empty string.\<close>

definition fileNameSet :: "string option \<Rightarrow> bool" where
  "fileNameSet fileName = (case fileName of None \<Rightarrow> False | Some f \<Rightarrow> f \<noteq> [])"

definition generateWakeConversationSummary ::
    "(LlmInput \<Rightarrow> error + string) \<Rightarrow> bool \<Rightarrow> Plugin \<Rightarrow> Plugin" where
  "generateWakeConversationSummary callLLM vaultAccepts s =
     (if length (conversationHistory s) = 0 then s
      else
        case wakeSessionFileName s of
          None \<Rightarrow> s
        | Some fileName \<Rightarrow>
            if fileName = [] then s
            else summarizeAndSave callLLM vaultAccepts (SummaryRequest (conversationHistory s))
                   fileName (conversationHistory s) s)"

text \<open>
  \<^verbatim>\<open>endContinuousDialogWithSummary\<close>, called by the silence timer and by the button of
  the status window; \<open>fileName\<close> is the name made from the clock. After the guard it has
  two parts: the summary, which awaits \<^verbatim>\<open>callLLM\<close> and the vault, and the synchronous
  end of the dialog mode, where the flag is cleared and the timers are cancelled.
\<close>

definition endDialogSummary ::
    "(LlmInput \<Rightarrow> error + string) \<Rightarrow> bool \<Rightarrow> string \<Rightarrow> Plugin \<Rightarrow> Plugin" where
  "endDialogSummary callLLM vaultAccepts fileName s =
     (if length (conversationHistory s) > 0 then
        if isWakeConversation s \<and> fileNameSet (wakeSessionFileName s)
        then endWakeSession (generateWakeConversationSummary callLLM vaultAccepts s)
        else (generateConversationSummary callLLM vaultAccepts fileName s)
               \<lparr>conversationHistory := []\<rparr>
      else s)"

definition endDialogMode :: "Plugin \<Rightarrow> Plugin" where
  "endDialogMode s =
     (let s2 = s\<lparr>isInContinuousDialog := False\<rparr>;
          s3 = clearSilenceTimer s2;
          s4 = stopBackgroundVoiceDetection s3
      in stopPreRecordingBuffer s4)"

definition endContinuousDialogWithSummary ::
    "(LlmInput \<Rightarrow> error + string) \<Rightarrow> bool \<Rightarrow> string \<Rightarrow> Plugin \<Rightarrow> Plugin" where
  "endContinuousDialogWithSummary callLLM vaultAccepts fileName s =
     (if \<not> isInContinuousDialog s then s
      else endDialogMode (endDialogSummary callLLM vaultAccepts fileName s))"


subsection \<open>The session as a transition system\<close>








subsection \<open>Invariants of the transition system\<close>







subsection \<open>Dictation\<close>

text \<open>
  The fields and closure variables of the dictation loop, the calls of
  \<^verbatim>\<open>speechToText\<close> it has made and the insertions it has asked the editor for.
\<close>

record Dictation =
  isDictating :: bool
  dictationAudioChunks :: "Blob list"
  lastVoiceDetectedTime :: int
  lastVoiceTime :: int
  allRecognizedText :: string
  insertPosition :: "nat \<times> nat"
  recognitionRequests :: "Blob list"
  dictationInserts :: "((nat \<times> nat) \<times> string) list"

text \<open>
  \<^verbatim>\<open>processAccumulatedAudio\<close>: the chunks are joined and sent to \<^verbatim>\<open>speechToText\<close>; a
  text that is not blank is inserted, followed by a space, at the insert position. A
  failed recognition is caught and gives the empty string.
\<close>

definition processAccumulatedAudio ::
    "(Blob \<Rightarrow> error + string) \<Rightarrow> Dictation \<Rightarrow> string \<times> Dictation" where
  "processAccumulatedAudio speechToText d =
     (if length (dictationAudioChunks d) = 0 then ([], d)
      else
        let combinedAudioBlob = concat (dictationAudioChunks d);
            d1 = d\<lparr>recognitionRequests := recognitionRequests d @ [combinedAudioBlob]\<rparr>
        in case speechToText combinedAudioBlob of
             Inl e \<Rightarrow> ([], d1)
           | Inr recognizedText \<Rightarrow>
               if recognizedText \<noteq> [] \<and> trim recognizedText \<noteq> []
               then (recognizedText,
                     d1\<lparr>dictationInserts := dictationInserts d1 @
                           [(insertPosition d1, recognizedText @ '' '')]\<rparr>)
               else ([], d1))"




text \<open>A plugin as its field initialisers leave it, and settings with synthesis and audio
  saving switched on, used to evaluate the handlers on concrete input.\<close>

definition initialPlugin :: "Settings \<Rightarrow> Plugin" where
  "initialPlugin config =
     \<lparr>settings = config, currentAudio = None, isPlaying = False,
      isInContinuousDialog = False, conversationHistory = [], silenceTimer = None,
      backgroundVoiceDetection = False, voiceDetectionTimer = None,
      preRecordingBuffer = [], isPreRecording = False, isWakeConversation = False,
      wakeSessionId = None, wakeSessionFileName = None, wakeSessionAudioSaved = False,
      pendingTimers = [], nextTimerId = 1, audioElements = [], consecutiveDetections = 0,
      vaultAudio = [], vaultNotes = [], editorInserts = [], activeView = True\<rparr>"

text \<open>A configuration used to evaluate the prompt selection on concrete input.\<close>

definition examplePrompts :: "CustomPrompt list" where
  "examplePrompts =
     [\<lparr>name = ''off'', trigger = ''remind'', prompt = ''IGNORED'', enabled = False\<rparr>,
      \<lparr>name = ''task'', trigger = ''REMIND me'', prompt = ''Write a task.'', enabled = True\<rparr>,
      \<lparr>name = ''late'', trigger = ''me'', prompt = ''LATER'', enabled = True\<rparr>]"

definition exampleSettings :: Settings where
  "exampleSettings =
     \<lparr>customPrompts = Some examplePrompts, ttsMode = TtsOnline, saveAudioToVault = True,
      autoEnterDialogAfterWake = True, enableVoiceInterruption = True,
      voiceDetectionThreshold = 30\<rparr>"

text \<open>A dialog with one recorded turn, and a dictation with two pending segments.\<close>

definition dialogWithOneTurn :: Plugin where
  "dialogWithOneTurn =
     (startContinuousDialog (initialPlugin exampleSettings))
       \<lparr>conversationHistory := [\<lparr>user = ''hello'', assistant = ''hi'', timestamp = 7\<rparr>]\<rparr>"





section \<open>Properties\<close>

subsection \<open>Pre-recording buffer\<close>

lemma addToPreRecordingBuffer_below:
  "length buf < preRecordingBufferSize \<Longrightarrow> addToPreRecordingBuffer buf b = buf @ [b]"
  by (simp add: addToPreRecordingBuffer_def)

lemma addToPreRecordingBuffer_full:
  "length buf = preRecordingBufferSize \<Longrightarrow> addToPreRecordingBuffer buf b = tl buf @ [b]"
  by (cases buf) (simp_all add: addToPreRecordingBuffer_def preRecordingBufferSize_def)

lemma addToPreRecordingBuffer_length:
  "length buf \<le> preRecordingBufferSize \<Longrightarrow>
   length (addToPreRecordingBuffer buf b) \<le> preRecordingBufferSize"
  by (simp add: addToPreRecordingBuffer_def Let_def)

lemma foldl_addToPreRecordingBuffer_length:
  "length buf \<le> preRecordingBufferSize \<Longrightarrow>
   length (foldl addToPreRecordingBuffer buf segments) \<le> preRecordingBufferSize"
  by (induction segments arbitrary: buf) (simp_all add: addToPreRecordingBuffer_length)

lemma preRecordingRun_length: "length (preRecordingRun segments) \<le> preRecordingBufferSize"
  by (simp add: preRecordingRun_def foldl_addToPreRecordingBuffer_length)

lemma preRecordingRun_snoc:
  "preRecordingRun (segments @ [b]) = addToPreRecordingBuffer (preRecordingRun segments) b"
  by (simp add: preRecordingRun_def)

lemma preRecordingRun_last_segments:
  "preRecordingRun segments = drop (length segments - preRecordingBufferSize) segments"
proof (induction segments rule: rev_induct)
  case Nil
  then show ?case by (simp add: preRecordingRun_def)
next
  case (snoc b segments)
  let ?kept = "drop (length segments - preRecordingBufferSize) segments"
  show ?case
  proof (cases "length segments < preRecordingBufferSize")
    case True
    then have "length ?kept < preRecordingBufferSize" by simp
    then have "addToPreRecordingBuffer ?kept b = ?kept @ [b]"
      by (rule addToPreRecordingBuffer_below)
    with True snoc show ?thesis by (simp add: preRecordingRun_snoc)
  next
    case False
    then have len: "length ?kept = preRecordingBufferSize" by simp
    then have "addToPreRecordingBuffer ?kept b = tl ?kept @ [b]"
      by (rule addToPreRecordingBuffer_full)
    moreover have "tl ?kept = drop (Suc (length segments) - preRecordingBufferSize) segments"
      using False by (simp add: drop_Suc [symmetric] tl_drop Suc_diff_le)
    ultimately show ?thesis
      using False snoc by (simp add: preRecordingRun_snoc preRecordingBufferSize_def)
  qed
qed

text \<open>
  Claim C7. The buffer filled by \<^verbatim>\<open>addToPreRecordingBuffer\<close> from its empty start never
  holds more than \<^verbatim>\<open>preRecordingBufferSize\<close> (10) segments: it holds the last 10 segments
  pushed, in the order they were pushed. A push into a buffer within the
  limit keeps it within the limit; a push into a full buffer returns the old buffer without
  its first (oldest) segment, in the old order, followed by the new segment; a push into a
  buffer that is not full evicts nothing.
\<close>

theorem C7_rolling_buffer_capacity:
  "preRecordingBufferSize = 10 \<and>
   length (preRecordingRun segments) \<le> preRecordingBufferSize \<and>
   preRecordingRun segments = drop (length segments - preRecordingBufferSize) segments \<and>
   (length buf \<le> preRecordingBufferSize \<longrightarrow>
      length (addToPreRecordingBuffer buf b) \<le> preRecordingBufferSize) \<and>
   (length buf = preRecordingBufferSize \<longrightarrow>
      buf = hd buf # tl buf \<and> addToPreRecordingBuffer buf b = tl buf @ [b]) \<and>
   (length buf < preRecordingBufferSize \<longrightarrow> addToPreRecordingBuffer buf b = buf @ [b])"
proof -
  have full: "buf = hd buf # tl buf" if "length buf = preRecordingBufferSize"
    using that by (cases buf) (simp_all add: preRecordingBufferSize_def)
  have last: "preRecordingRun segments = drop (length segments - preRecordingBufferSize) segments"
    by (rule preRecordingRun_last_segments)
  have size: "preRecordingBufferSize = 10"
    by (simp add: preRecordingBufferSize_def)
  have push: "(length buf \<le> preRecordingBufferSize \<longrightarrow>
      length (addToPreRecordingBuffer buf b) \<le> preRecordingBufferSize) \<and>
   (length buf = preRecordingBufferSize \<longrightarrow>
      buf = hd buf # tl buf \<and> addToPreRecordingBuffer buf b = tl buf @ [b]) \<and>
   (length buf < preRecordingBufferSize \<longrightarrow> addToPreRecordingBuffer buf b = buf @ [b])"
    using full
    by (simp add: addToPreRecordingBuffer_length addToPreRecordingBuffer_full
        addToPreRecordingBuffer_below)
  from size last push preRecordingRun_length [of segments] show ?thesis
    by blast
qed

theorem C7_rolling_buffer_capacity_witness:
  "length [0, 1, 2, 3, 4, 5, 6, 7, 8, 9 :: nat] = preRecordingBufferSize \<and>
   addToPreRecordingBuffer [0, 1, 2, 3, 4, 5, 6, 7, 8, 9 :: nat] 10
     = [1, 2, 3, 4, 5, 6, 7, 8, 9, 10] \<and>
   preRecordingRun [0, 1, 2, 3, 4, 5, 6, 7, 8, 9, 10, 11 :: nat]
     = [2, 3, 4, 5, 6, 7, 8, 9, 10, 11] \<and>
   length [0, 1 :: nat] < preRecordingBufferSize \<and>
   addToPreRecordingBuffer [0, 1 :: nat] 2 = [0, 1, 2]"
proof -
  let ?buf = "[0, 1, 2, 3, 4, 5, 6, 7, 8, 9 :: nat]"
  let ?segs = "[0, 1, 2, 3, 4, 5, 6, 7, 8, 9, 10, 11 :: nat]"
  note inst = C7_rolling_buffer_capacity [of ?segs ?buf 10]
  have len: "length ?buf = preRecordingBufferSize"
    unfolding preRecordingBufferSize_def by simp
  from inst len have "addToPreRecordingBuffer ?buf 10 = tl ?buf @ [10]"
    by blast
  moreover from inst
  have "preRecordingRun ?segs = drop (length ?segs - preRecordingBufferSize) ?segs"
    by blast
  then have "preRecordingRun ?segs = [2, 3, 4, 5, 6, 7, 8, 9, 10, 11]"
    by (simp add: preRecordingBufferSize_def)
  moreover have short: "length [0, 1 :: nat] < preRecordingBufferSize"
    unfolding preRecordingBufferSize_def by simp
  moreover from C7_rolling_buffer_capacity [of "[] :: nat list" "[0, 1 :: nat]" 2] short
  have "addToPreRecordingBuffer [0, 1 :: nat] 2 = [0, 1] @ [2]"
    by blast
  ultimately show ?thesis
    using len by simp
qed

subsection \<open>Voice activity detection\<close>










subsection \<open>Custom prompts\<close>







subsection \<open>Fields that the handlers leave alone\<close>

lemma clearSilenceTimer_fields [simp]:
  "conversationHistory (clearSilenceTimer s) = conversationHistory s"
  "isInContinuousDialog (clearSilenceTimer s) = isInContinuousDialog s"
  "settings (clearSilenceTimer s) = settings s"
  "vaultAudio (clearSilenceTimer s) = vaultAudio s"
  by (simp_all add: clearSilenceTimer_def clearTimeout_def split: option.splits)

lemma startSilenceDetection_fields [simp]:
  "conversationHistory (startSilenceDetection s) = conversationHistory s"
  "isInContinuousDialog (startSilenceDetection s) = isInContinuousDialog s"
  "settings (startSilenceDetection s) = settings s"
  "vaultAudio (startSilenceDetection s) = vaultAudio s"
  by (simp_all add: startSilenceDetection_def setTimeout_def Let_def)

lemma pauseAudio_fields [simp]:
  "conversationHistory (pauseAudio a s) = conversationHistory s"
  "isInContinuousDialog (pauseAudio a s) = isInContinuousDialog s"
  "settings (pauseAudio a s) = settings s"
  "vaultAudio (pauseAudio a s) = vaultAudio s"
  by (simp_all add: pauseAudio_def)

lemma playAudioFromBase64_fields [simp]:
  "conversationHistory (snd (playAudioFromBase64 b s)) = conversationHistory s"
  "isInContinuousDialog (snd (playAudioFromBase64 b s)) = isInContinuousDialog s"
  "settings (snd (playAudioFromBase64 b s)) = settings s"
  by (simp_all add: playAudioFromBase64_def Let_def)

lemma playAudioFromBase64_vaultAudio:
  "\<not> saveAudioToVault (settings s) \<Longrightarrow> vaultAudio (snd (playAudioFromBase64 b s)) = vaultAudio s"
  by (simp add: playAudioFromBase64_def Let_def)

lemma audioOnEnded_fields [simp]:
  "conversationHistory (audioOnEnded a s) = conversationHistory s"
  "isInContinuousDialog (audioOnEnded a s) = isInContinuousDialog s"
  "settings (audioOnEnded a s) = settings s"
  "vaultAudio (audioOnEnded a s) = vaultAudio s"
  by (simp_all add: audioOnEnded_def)

lemma audioOnError_fields [simp]:
  "conversationHistory (audioOnError a s) = conversationHistory s"
  "isInContinuousDialog (audioOnError a s) = isInContinuousDialog s"
  "settings (audioOnError a s) = settings s"
  "vaultAudio (audioOnError a s) = vaultAudio s"
  by (simp_all add: audioOnError_def)

lemma textToSpeech_fields [simp]:
  "conversationHistory (snd (textToSpeech out s)) = conversationHistory s"
  "isInContinuousDialog (snd (textToSpeech out s)) = isInContinuousDialog s"
  "settings (snd (textToSpeech out s)) = settings s"
  by (simp_all add: textToSpeech_def xunfeiOnlineTTS_def split: TtsOutcome.splits prod.splits)
     (metis playAudioFromBase64_fields snd_conv)+

lemma textToSpeech_vaultAudio:
  "\<not> saveAudioToVault (settings s) \<Longrightarrow> vaultAudio (snd (textToSpeech out s)) = vaultAudio s"
  by (simp add: textToSpeech_def xunfeiOnlineTTS_def playAudioFromBase64_def Let_def
      audioOnEnded_def audioOnError_def split: TtsOutcome.splits)

lemma stopBackgroundVoiceDetection_fields [simp]:
  "conversationHistory (stopBackgroundVoiceDetection s) = conversationHistory s"
  "isInContinuousDialog (stopBackgroundVoiceDetection s) = isInContinuousDialog s"
  "settings (stopBackgroundVoiceDetection s) = settings s"
  by (simp_all add: stopBackgroundVoiceDetection_def clearTimeout_def Let_def split: option.splits)

lemma preRecording_fields [simp]:
  "conversationHistory (startPreRecordingBuffer s) = conversationHistory s"
  "isInContinuousDialog (startPreRecordingBuffer s) = isInContinuousDialog s"
  "settings (startPreRecordingBuffer s) = settings s"
  "conversationHistory (stopPreRecordingBuffer s) = conversationHistory s"
  "isInContinuousDialog (stopPreRecordingBuffer s) = isInContinuousDialog s"
  "settings (stopPreRecordingBuffer s) = settings s"
  by (simp_all add: startPreRecordingBuffer_def stopPreRecordingBuffer_def)

lemma handleVoiceInterruption_fields [simp]:
  "conversationHistory (handleVoiceInterruption s) = conversationHistory s"
  "isInContinuousDialog (handleVoiceInterruption s) = isInContinuousDialog s"
  "settings (handleVoiceInterruption s) = settings s"
  by (simp_all add: handleVoiceInterruption_def Let_def split: option.splits)

lemma scheduleCheckVolume_fields [simp]:
  "conversationHistory (scheduleCheckVolume s) = conversationHistory s"
  "isInContinuousDialog (scheduleCheckVolume s) = isInContinuousDialog s"
  "settings (scheduleCheckVolume s) = settings s"
  by (simp_all add: scheduleCheckVolume_def setTimeout_def)

lemma checkVolume_fields [simp]:
  "conversationHistory (checkVolume average s) = conversationHistory s"
  "isInContinuousDialog (checkVolume average s) = isInContinuousDialog s"
  "settings (checkVolume average s) = settings s"
  by (simp_all add: checkVolume_def Let_def)

lemma startBackgroundVoiceDetection_fields [simp]:
  "conversationHistory (startBackgroundVoiceDetection average s) = conversationHistory s"
  "isInContinuousDialog (startBackgroundVoiceDetection average s) = isInContinuousDialog s"
  "settings (startBackgroundVoiceDetection average s) = settings s"
  by (simp_all add: startBackgroundVoiceDetection_def)

lemma startRecording_fields [simp]:
  "fst (startRecording captured s) = captured"
  "conversationHistory (snd (startRecording captured s)) = conversationHistory s"
  "isInContinuousDialog (snd (startRecording captured s)) = isInContinuousDialog s"
  "settings (snd (startRecording captured s)) = settings s"
  by (simp_all add: startRecording_def Let_def split: option.splits)

lemma insertToNote_fields [simp]:
  "conversationHistory (insertToNote u a s) = conversationHistory s"
  "isInContinuousDialog (insertToNote u a s) = isInContinuousDialog s"
  "settings (insertToNote u a s) = settings s"
  by (simp_all add: insertToNote_def)

lemma afterError_fields [simp]:
  "conversationHistory (afterError s) = conversationHistory s"
  "isInContinuousDialog (afterError s) = isInContinuousDialog s"
  "settings (afterError s) = settings s"
  by (simp_all add: afterError_def)

subsection \<open>Dialog turns\<close>

text \<open>
  The history after \<^verbatim>\<open>processSingleConversation\<close>: one turn is added when the recording,
  the recognition and the response all deliver, the recognised text is neither empty nor
  the "nothing recognised" text, the response is not empty and the dialog is active;
  otherwise the history is unchanged.
\<close>

lemma processSingleConversation_history:
  "conversationHistory (snd (processSingleConversation captured speechToText callLLM outcome now level s)) =
     (case captured of
        Inl _ \<Rightarrow> conversationHistory s
      | Inr audioBlob \<Rightarrow>
         (case speechToText audioBlob of
            Inl _ \<Rightarrow> conversationHistory s
          | Inr text \<Rightarrow>
              if text = [] \<or> text = noSpeechText then conversationHistory s
              else
                (case callLLM (UserPrompt (processCustomPrompts (customPrompts (settings s)) text)) of
                   Inl _ \<Rightarrow> conversationHistory s
                 | Inr response \<Rightarrow>
                     if response = [] \<or> \<not> isInContinuousDialog s then conversationHistory s
                     else conversationHistory s @
                            [\<lparr>user = text, assistant = response, timestamp = now\<rparr>])))"
proof -
  obtain r s1 where rec: "startRecording captured (clearSilenceTimer s) = (r, s1)"
    by (cases "startRecording captured (clearSilenceTimer s)")
  then have r: "r = captured" by (metis fst_conv startRecording_fields(1))
  from rec have s1: "conversationHistory s1 = conversationHistory s"
      "isInContinuousDialog s1 = isInContinuousDialog s" "settings s1 = settings s"
    by (metis snd_conv startRecording_fields(2) clearSilenceTimer_fields(1),
        metis snd_conv startRecording_fields(3) clearSilenceTimer_fields(2),
        metis snd_conv startRecording_fields(4) clearSilenceTimer_fields(3))
  have tts: "conversationHistory (snd (case textToSpeech outcome t of
               (Inl e, u) \<Rightarrow> (Inl e, u)
             | (Inr x, u) \<Rightarrow> (Inr (), f u))) = conversationHistory t"
    if "\<And>u. conversationHistory (f u) = conversationHistory u" for t f
  proof (cases "textToSpeech outcome t")
    case (Pair a u)
    then have "conversationHistory u = conversationHistory t"
      by (metis snd_conv textToSpeech_fields(1))
    with Pair that show ?thesis by (cases a) simp_all
  qed
  show ?thesis
    unfolding processSingleConversation_def Let_def rec r
    by (simp add: s1 tts split: sum.splits)
qed

text \<open>
  The history after \<^verbatim>\<open>processSingleConversationWithBuffer\<close>: the response is not
  tested, so a turn is added whenever \<^verbatim>\<open>callLLM\<close> resolves.
\<close>

lemma processSingleConversationWithBuffer_history:
  "conversationHistory (processSingleConversationWithBuffer captured speechToText callLLM outcome now level s) =
     (case captured of
        Inl _ \<Rightarrow> conversationHistory s
      | Inr newAudioBlob \<Rightarrow>
         (case speechToText
                 (case getPreRecordingBufferAudio s of
                    None \<Rightarrow> newAudioBlob
                  | Some buffered \<Rightarrow>
                      if length buffered > 0 then buffered @ newAudioBlob else newAudioBlob) of
            Inl _ \<Rightarrow> conversationHistory s
          | Inr userText \<Rightarrow>
              if userText = [] \<or> trim userText = [] \<or> userText = noSpeechText
              then conversationHistory s
              else
                (case callLLM (UserPrompt (processCustomPrompts (customPrompts (settings s)) userText)) of
                   Inl _ \<Rightarrow> conversationHistory s
                 | Inr aiResponse \<Rightarrow>
                     conversationHistory s @
                       [\<lparr>user = userText, assistant = aiResponse, timestamp = now\<rparr>])))"
proof -
  obtain r s1 where rec: "startRecording captured s = (r, s1)"
    by (cases "startRecording captured s")
  then have r: "r = captured" by (metis fst_conv startRecording_fields(1))
  from rec have s1: "conversationHistory s1 = conversationHistory s"
      "isInContinuousDialog s1 = isInContinuousDialog s" "settings s1 = settings s"
    by (metis snd_conv startRecording_fields(2),
        metis snd_conv startRecording_fields(3),
        metis snd_conv startRecording_fields(4))
  have tts: "conversationHistory (case textToSpeech outcome t of
               (Inl e, u) \<Rightarrow> f u
             | (Inr x, u) \<Rightarrow> g u) = conversationHistory t"
    if "\<And>u. conversationHistory (f u) = conversationHistory u"
       "\<And>u. conversationHistory (g u) = conversationHistory u" for t f g
  proof (cases "textToSpeech outcome t")
    case (Pair a u)
    then have "conversationHistory u = conversationHistory t"
      by (metis snd_conv textToSpeech_fields(1))
    with Pair that show ?thesis by (cases a) simp_all
  qed
  show ?thesis
    unfolding processSingleConversationWithBuffer_def Let_def rec r
    by (simp add: s1 tts split: sum.splits)
qed

lemma trim_hello: "trim ''hello'' \<noteq> []" by code_simp
lemma hello_not_noSpeechText: "''hello'' \<noteq> noSpeechText" by (simp add: noSpeechText_def)

lemma dialog_started_state:
  "conversationHistory (startContinuousDialog (initialPlugin exampleSettings)) = []"
  "isInContinuousDialog (startContinuousDialog (initialPlugin exampleSettings))"
  "getPreRecordingBufferAudio (handleVoiceInterruption (startContinuousDialog (initialPlugin exampleSettings))) = None"
  by (simp_all add: startContinuousDialog_def initialPlugin_def startPreRecordingBuffer_def
      getPreRecordingBufferAudio_def handleVoiceInterruption_def stopBackgroundVoiceDetection_def
      clearSilenceTimer_def)

text \<open>
  Claim C1. A turn is to be recorded only when recognition returned a text and the
  response succeeded with a text. In the turn that an interruption starts, with "hello"
  recognised and the model answering with the empty string, the code appends the turn
  \<open>(hello, empty)\<close> to the history; \<^verbatim>\<open>processSingleConversation\<close> on the same outcomes
  records nothing.
\<close>

theorem C1_interruption_turn_records_empty_response:
  "conversationHistory
     (processSingleConversationWithBuffer (Inr [1, 2, 3]) (\<lambda>audio. Inr ''hello'')
        (\<lambda>request. Inr []) NoAudioData 7 0
        (handleVoiceInterruption (startContinuousDialog (initialPlugin exampleSettings))))
     = [\<lparr>user = ''hello'', assistant = [], timestamp = 7\<rparr>] \<and>
   conversationHistory
     (snd (processSingleConversation (Inr [1, 2, 3]) (\<lambda>audio. Inr ''hello'')
        (\<lambda>request. Inr []) NoAudioData 7 0
        (startContinuousDialog (initialPlugin exampleSettings))))
     = []"
  by (simp add: processSingleConversationWithBuffer_history processSingleConversation_history
      trim_hello hello_not_noSpeechText dialog_started_state)

subsection \<open>Wake word\<close>

text \<open>
  The settings after \<^verbatim>\<open>onWakeWordDetected\<close>: unchanged when the acknowledgement is
  skipped or succeeds; with \<^verbatim>\<open>saveAudioToVault\<close> off, whatever it was, when the synthesis
  or the playback fails. The acknowledgement itself is never handed to the vault.
\<close>

lemma onWakeWordDetected_settings:
  "settings (snd (onWakeWordDetected outcome sessionId fileName s)) =
     (if ttsMode (settings s) = TtsOnline \<and>
         (outcome = SynthesisFails \<or> (\<exists>audio. outcome = PlaybackFails audio))
      then (settings s)\<lparr>saveAudioToVault := False\<rparr>
      else settings s)"
  by (cases outcome; cases "ttsMode (settings s)")
     (simp_all add: onWakeWordDetected_def textToSpeech_def xunfeiOnlineTTS_def
        playAudioFromBase64_def audioOnEnded_def audioOnError_def startNewWakeSession_def Let_def)

lemma onWakeWordDetected_vaultAudio:
  "vaultAudio (snd (onWakeWordDetected outcome sessionId fileName s)) = vaultAudio s"
  by (cases outcome; cases "ttsMode (settings s)")
     (simp_all add: onWakeWordDetected_def textToSpeech_def xunfeiOnlineTTS_def
        playAudioFromBase64_def audioOnEnded_def audioOnError_def startNewWakeSession_def Let_def)

text \<open>
  Claim C9. After the acknowledgement the setting \<^verbatim>\<open>saveAudioToVault\<close> is to have the
  value it had before, on the failure path as on the success path. With the setting on
  and the synthesis failing, the code leaves it off; with the audio played it is on again.
\<close>

theorem C9_failed_acknowledgement_leaves_saving_off:
  "saveAudioToVault (settings (initialPlugin exampleSettings)) \<and>
   \<not> saveAudioToVault (settings (snd
       (onWakeWordDetected SynthesisFails 1 ''session.md'' (initialPlugin exampleSettings)))) \<and>
   saveAudioToVault (settings (snd
       (onWakeWordDetected (AudioPlayed [1]) 1 ''session.md'' (initialPlugin exampleSettings))))"
  by (simp add: onWakeWordDetected_settings) (simp add: initialPlugin_def exampleSettings_def)

subsection \<open>End of a dialog\<close>

text \<open>
  What the end of a dialog hands to the vault: nothing when \<^verbatim>\<open>callLLM\<close> throws or the
  vault refuses, the summary with the transcript when the summary is not empty, the raw
  transcript when \<^verbatim>\<open>callLLM\<close> resolves to the empty string.
\<close>

lemma summarizeAndSave_vaultNotes:
  "vaultNotes (summarizeAndSave callLLM vaultAccepts request fileName turns s) =
     (case callLLM request of
        Inl e \<Rightarrow> vaultNotes s
      | Inr summary \<Rightarrow>
          if \<not> vaultAccepts then vaultNotes s
          else if summary \<noteq> [] then vaultNotes s @ [(fileName, SummaryNote summary turns)]
          else vaultNotes s @ [(fileName, RawNote turns)])"
  by (simp add: summarizeAndSave_def saveConversationToFile_def split: sum.splits)

lemma stop_vaultNotes [simp]:
  "vaultNotes (clearSilenceTimer s) = vaultNotes s"
  "vaultNotes (stopBackgroundVoiceDetection s) = vaultNotes s"
  "vaultNotes (stopPreRecordingBuffer s) = vaultNotes s"
  "vaultNotes (endWakeSession s) = vaultNotes s"
  by (simp_all add: clearSilenceTimer_def stopBackgroundVoiceDetection_def clearTimeout_def
      stopPreRecordingBuffer_def endWakeSession_def Let_def split: option.splits)

lemma endContinuousDialogWithSummary_vaultNotes:
  "isInContinuousDialog s \<Longrightarrow> conversationHistory s \<noteq> [] \<Longrightarrow> \<not> isWakeConversation s \<Longrightarrow>
   vaultNotes (endContinuousDialogWithSummary callLLM vaultAccepts fileName s) =
     (case callLLM (SummaryRequest (conversationHistory s)) of
        Inl e \<Rightarrow> vaultNotes s
      | Inr summary \<Rightarrow>
          if \<not> vaultAccepts then vaultNotes s
          else if summary \<noteq> []
            then vaultNotes s @ [(fileName, SummaryNote summary (conversationHistory s))]
          else vaultNotes s @ [(fileName, RawNote (conversationHistory s))])"
  by (simp add: endContinuousDialogWithSummary_def endDialogSummary_def endDialogMode_def
      generateConversationSummary_def Let_def summarizeAndSave_vaultNotes)

lemma dialogWithOneTurn_fields:
  "isInContinuousDialog dialogWithOneTurn"
  "conversationHistory dialogWithOneTurn = [\<lparr>user = ''hello'', assistant = ''hi'', timestamp = 7\<rparr>]"
  "\<not> isWakeConversation dialogWithOneTurn"
  "vaultNotes dialogWithOneTurn = []"
  by (simp_all add: dialogWithOneTurn_def startContinuousDialog_def startPreRecordingBuffer_def
      initialPlugin_def)

text \<open>
  Claim C6. A dialog that ends with at least one turn is to have a summary requested and
  something persisted: the summary with the transcript, or the raw transcript when the
  summary fails. For a dialog with one turn ended by \<^verbatim>\<open>endContinuousDialogWithSummary\<close>
  with the vault accepting every file: when \<^verbatim>\<open>callLLM\<close> rejects, nothing is persisted;
  the raw transcript is persisted only when \<^verbatim>\<open>callLLM\<close> resolves to an empty summary,
  and the summary with the transcript when it resolves to a text.
\<close>

theorem C6_failed_summary_persists_nothing:
  "conversationHistory dialogWithOneTurn \<noteq> [] \<and>
   vaultNotes (endContinuousDialogWithSummary (\<lambda>request. Inl ResponseError) True ''session.md''
      dialogWithOneTurn) = [] \<and>
   vaultNotes (endContinuousDialogWithSummary (\<lambda>request. Inr []) True ''session.md''
      dialogWithOneTurn)
     = [(''session.md'', RawNote [\<lparr>user = ''hello'', assistant = ''hi'', timestamp = 7\<rparr>])] \<and>
   vaultNotes (endContinuousDialogWithSummary (\<lambda>request. Inr ''summary'') True ''session.md''
      dialogWithOneTurn)
     = [(''session.md'',
         SummaryNote ''summary'' [\<lparr>user = ''hello'', assistant = ''hi'', timestamp = 7\<rparr>])]"
  by (simp add: endContinuousDialogWithSummary_vaultNotes dialogWithOneTurn_fields)

subsection \<open>Dictation flushes\<close>

lemma processAccumulatedAudio_chunks:
  "dictationAudioChunks (snd (processAccumulatedAudio speechToText d)) = dictationAudioChunks d"
  by (simp add: processAccumulatedAudio_def Let_def split: sum.splits)








subsection \<open>Timers of the session\<close>










lemma clear_subset:
  "set (pendingTimers (clearSilenceTimer s)) \<subseteq> set (pendingTimers s)"
  by (auto simp: clearSilenceTimer_def clearTimeout_def split: option.splits)
















































subsection \<open>Playback and interruption\<close>







lemma pauseAudio_audio:
  "audioElements (pauseAudio audio s) =
     (if audioStatus s audio = Playing then (audioElements s)[audio := Paused]
      else audioElements s)"
  "currentAudio (pauseAudio audio s) = currentAudio s"
  by (simp_all add: pauseAudio_def)































end
